theory Spec2Isabelle
  imports Complex_Main
begin

section \<open>Python values\<close>

text \<open>
  A Python \<open>str\<close> is the sequence of its code points, so that \<open>len\<close> and slicing count
  what Python counts. \<open>u\<close> embeds an ASCII literal of the source.
\<close>

type_synonym pystr = "nat list"

definition u :: "string \<Rightarrow> pystr" where
  "u cs = map of_char cs"

text \<open>
  A response of the platform API is a JSON value. An object is an association list with
  \<open>map_of\<close> as its lookup. Counts arrive as decimal strings.
\<close>

datatype json =
    JNull
  | JBool bool
  | JNum int
  | JStr pystr
  | JArr "json list"
  | JObj "(pystr \<times> json) list"

text \<open>
  Exceptions are values. \<open>HttpError\<close> is the API client's error with its response status,
  \<open>HTTPException\<close> is the web framework's, with status code and detail. A detail is a
  literal of the source, \<open>str(e)\<close> of a caught exception, or an f-string that puts a
  literal before \<open>str(e)\<close>.
\<close>

datatype py_exn =
    KeyError json
  | IndexError
  | TypeError
  | AttributeError
  | ValueError
  | ZeroDivisionError
  | ValidationError
  | OtherError pystr
  | HttpError nat
  | HTTPException nat detail
and detail =
    Text pystr
  | StrOf py_exn
  | Prefixed pystr py_exn

type_synonym 'a res = "py_exn + 'a"

definition bnd :: "'a res \<Rightarrow> ('a \<Rightarrow> 'b res) \<Rightarrow> 'b res" where
  "bnd m f = (case m of Inl e \<Rightarrow> Inl e | Inr x \<Rightarrow> f x)"

text \<open>\<open>v[k]\<close> for a string key.\<close>

fun subscript :: "json \<Rightarrow> pystr \<Rightarrow> json res" where
  "subscript (JObj kvs) k =
     (case map_of kvs k of None \<Rightarrow> Inl (KeyError (JStr k)) | Some v \<Rightarrow> Inr v)"
| "subscript _ k = Inl TypeError"

text \<open>\<open>v[0]\<close>.\<close>

fun first_item :: "json \<Rightarrow> json res" where
  "first_item (JArr []) = Inl IndexError"
| "first_item (JArr (x # xs)) = Inr x"
| "first_item (JStr []) = Inl IndexError"
| "first_item (JStr (c # cs)) = Inr (JStr [c])"
| "first_item (JObj kvs) = Inl (KeyError (JNum 0))"
| "first_item _ = Inl TypeError"

text \<open>\<open>v.get(k, d)\<close>: only a dict has the method.\<close>

fun dict_get :: "json \<Rightarrow> pystr \<Rightarrow> json \<Rightarrow> json res" where
  "dict_get (JObj kvs) k d = Inr (case map_of kvs k of None \<Rightarrow> d | Some v \<Rightarrow> v)"
| "dict_get _ k d = Inl AttributeError"

fun is_substring :: "pystr \<Rightarrow> pystr \<Rightarrow> bool" where
  "is_substring k [] = (k = [])"
| "is_substring k (c # cs) = (take (length k) (c # cs) = k \<or> is_substring k cs)"

text \<open>\<open>k in v\<close> for a string \<open>k\<close>.\<close>

fun contains :: "pystr \<Rightarrow> json \<Rightarrow> bool res" where
  "contains k (JObj kvs) = Inr (map_of kvs k \<noteq> None)"
| "contains k (JArr xs) = Inr (JStr k \<in> set xs)"
| "contains k (JStr s) = Inr (is_substring k s)"
| "contains k _ = Inl TypeError"

text \<open>Truth value of a value in a condition.\<close>

fun truthy :: "json \<Rightarrow> bool" where
  "truthy JNull = False"
| "truthy (JBool b) = b"
| "truthy (JNum n) = (n \<noteq> 0)"
| "truthy (JStr s) = (s \<noteq> [])"
| "truthy (JArr xs) = (xs \<noteq> [])"
| "truthy (JObj kvs) = (kvs \<noteq> [])"

text \<open>Iterating a value in a \<open>for\<close> loop: a dict yields its keys, a string its characters.\<close>

fun iterate :: "json \<Rightarrow> json list res" where
  "iterate (JArr xs) = Inr xs"
| "iterate (JObj kvs) = Inr (map (\<lambda>kv. JStr (fst kv)) kvs)"
| "iterate (JStr s) = Inr (map (\<lambda>c. JStr [c]) s)"
| "iterate _ = Inl TypeError"

subsection \<open>\<open>int(x)\<close>\<close>

text \<open>The code points for which \<open>str.isspace\<close> holds; \<open>str.split\<close> splits at them.\<close>

definition py_isspace :: "nat \<Rightarrow> bool" where
  "py_isspace c \<longleftrightarrow>
     (9 \<le> c \<and> c \<le> 13) \<or> (28 \<le> c \<and> c \<le> 32) \<or> c = 133 \<or> c = 160 \<or> c = 5760 \<or>
     (8192 \<le> c \<and> c \<le> 8202) \<or> c = 8232 \<or> c = 8233 \<or> c = 8239 \<or> c = 8287 \<or> c = 12288"

text \<open>
  \<open>int\<close> of a string first brings the string to ASCII: a character below 127 stays, any
  other whitespace character becomes a blank, any other decimal digit becomes the ASCII
  digit of its value, and the first character that is neither ends the string with a
  question mark. The decimal digits come in runs of ten, \<open>decimal_starts\<close> holding the
  zero of each run (Unicode 14).
\<close>

definition decimal_starts :: "nat list" where
  "decimal_starts =
     [48, 1632, 1776, 1984, 2406, 2534, 2662, 2790, 2918, 3046, 3174, 3302, 3430, 3558,
      3664, 3792, 3872, 4160, 4240, 6112, 6160, 6470, 6608, 6784, 6800, 6992, 7088, 7232,
      7248, 42528, 43216, 43264, 43472, 43504, 43600, 44016, 65296, 66720, 68912, 69734,
      69872, 69942, 70096, 70384, 70736, 70864, 71248, 71360, 71472, 71904, 72016, 72784,
      73040, 73120, 92768, 92864, 93008, 120782, 120792, 120802, 120812, 120822, 123200,
      123632, 125264, 130032]"

definition unicode_decimal :: "nat \<Rightarrow> nat option" where
  "unicode_decimal c =
     (case filter (\<lambda>z. z \<le> c \<and> c < z + 10) decimal_starts of
        [] \<Rightarrow> None
      | z # zs \<Rightarrow> Some (c - z))"

fun to_ascii :: "pystr \<Rightarrow> pystr" where
  "to_ascii [] = []"
| "to_ascii (c # cs) =
     (if c < 127 then c # to_ascii cs
      else if py_isspace c then 32 # to_ascii cs
      else (case unicode_decimal c of
              None \<Rightarrow> [63]
            | Some d \<Rightarrow> (48 + d) # to_ascii cs))"

text \<open>
  The parser then skips the ASCII whitespace at both ends (the separators U+001C to U+001F
  are not among it), reads a sign and the digits.
\<close>

definition ascii_space :: "nat \<Rightarrow> bool" where
  "ascii_space c \<longleftrightarrow> (9 \<le> c \<and> c \<le> 13) \<or> c = 32"

definition int_strip :: "pystr \<Rightarrow> pystr" where
  "int_strip s = rev (dropWhile ascii_space (rev (dropWhile ascii_space s)))"

definition is_digit :: "nat \<Rightarrow> bool" where
  "is_digit c \<longleftrightarrow> 48 \<le> c \<and> c \<le> 57"

text \<open>Decimal digits, each pair of them separated by at most one underscore.\<close>

fun digits_val :: "pystr \<Rightarrow> int \<Rightarrow> bool \<Rightarrow> int option" where
  "digits_val [] acc after_digit = (if after_digit then Some acc else None)"
| "digits_val (c # cs) acc after_digit =
     (if is_digit c then digits_val cs (acc * 10 + int (c - 48)) True
      else if c = 95 \<and> after_digit then
        (case cs of [] \<Rightarrow> None
         | d # ds \<Rightarrow> if is_digit d then digits_val cs acc False else None)
      else None)"

definition int_of_str :: "pystr \<Rightarrow> int res" where
  "int_of_str s =
     (case int_strip (to_ascii s) of
        [] \<Rightarrow> Inl ValueError
      | c # cs \<Rightarrow>
          (if c = 45 then
             (case digits_val cs 0 False of None \<Rightarrow> Inl ValueError | Some n \<Rightarrow> Inr (- n))
           else if c = 43 then
             (case digits_val cs 0 False of None \<Rightarrow> Inl ValueError | Some n \<Rightarrow> Inr n)
           else
             (case digits_val (c # cs) 0 False of None \<Rightarrow> Inl ValueError | Some n \<Rightarrow> Inr n)))"

fun py_int :: "json \<Rightarrow> int res" where
  "py_int (JNum n) = Inr n"
| "py_int (JBool b) = Inr (if b then 1 else 0)"
| "py_int (JStr s) = int_of_str s"
| "py_int _ = Inl TypeError"

subsection \<open>Division and rounding\<close>

text \<open>
  A Python float is a binary64 number; it is modelled by its exact value, a rational.
  \<open>fl\<close> rounds a rational to 53 significant bits, a tie going to the even neighbour:
  \<open>ilog2\<close> is the exponent of the leading bit. (The range of the exponent is not bounded:
  the model has no overflow and no subnormal numbers, which take magnitudes beyond
  \<open>10^308\<close> or below \<open>10^-308\<close>.)
\<close>

definition round_half_even :: "rat \<Rightarrow> int" where
  "round_half_even x =
     (let f = \<lfloor>x\<rfloor>; d = x - of_int f
      in if d < 1 / 2 then f else if 1 / 2 < d then f + 1 else if even f then f else f + 1)"

function ilog2 :: "rat \<Rightarrow> int" where
  "ilog2 x =
     (if 2 \<le> x then ilog2 (x / 2) + 1
      else if 0 < x \<and> x < 1 then ilog2 (x * 2) - 1
      else 0)"
  by pat_completeness auto
termination
proof (relation "measure (\<lambda>x. if 1 \<le> x then nat \<lceil>x\<rceil> else nat \<lceil>1 / x\<rceil> + 2)")
  have half: "nat \<lceil>y / 2\<rceil> < nat \<lceil>y\<rceil>" if "2 \<le> y" for y :: rat
  proof -
    have "y / 2 \<le> y - 1" using that by simp
    then have "\<lceil>y / 2\<rceil> \<le> \<lceil>y - 1\<rceil>" by (rule ceiling_mono)
    then have 1: "\<lceil>y / 2\<rceil> < \<lceil>y\<rceil>" by simp
    have "0 < y" using that by simp
    then have 2: "0 < \<lceil>y\<rceil>" by (simp only: less_ceiling_iff of_int_0)
    from 1 2 show ?thesis by linarith
  qed
  have double: "nat \<lceil>x * 2\<rceil> < nat \<lceil>1 / x\<rceil> + 2" if "0 < x" "x < 1" for x :: rat
  proof -
    have "x * 2 \<le> 2" using that by simp
    then have 1: "\<lceil>x * 2\<rceil> \<le> 2" by (simp only: ceiling_le_iff of_int_numeral)
    have "0 < 1 / x" using that by simp
    then have 2: "0 < \<lceil>1 / x\<rceil>" by (simp only: less_ceiling_iff of_int_0)
    from 1 2 show ?thesis by linarith
  qed
  show "wf (measure (\<lambda>x::rat. if 1 \<le> x then nat \<lceil>x\<rceil> else nat \<lceil>1 / x\<rceil> + 2))"
    by (rule wf_measure)
  show "(x / 2, x) \<in> measure (\<lambda>x. if 1 \<le> x then nat \<lceil>x\<rceil> else nat \<lceil>1 / x\<rceil> + 2)"
    if "2 \<le> x" for x :: rat
    using that half [of x] by simp
  show "(x * 2, x) \<in> measure (\<lambda>x. if 1 \<le> x then nat \<lceil>x\<rceil> else nat \<lceil>1 / x\<rceil> + 2)"
    if "\<not> 2 \<le> x" "0 < x \<and> x < 1" for x :: rat
  proof (cases "1 \<le> x * 2")
    case True
    with double [of x] that show ?thesis by simp
  next
    case False
    then have "x < 1 / 2" by simp
    then have "2 \<le> 1 / x" using that by (simp add: field_simps)
    from half [OF this] have "nat \<lceil>1 / (x * 2)\<rceil> < nat \<lceil>1 / x\<rceil>"
      by (simp add: field_simps)
    with False that show ?thesis by simp
  qed
qed

definition pow2 :: "int \<Rightarrow> rat" where
  "pow2 e = (if 0 \<le> e then 2 ^ nat e else 1 / 2 ^ nat (- e))"

definition fl :: "rat \<Rightarrow> rat" where
  "fl x =
     (if x = 0 then 0
      else let e = ilog2 \<bar>x\<bar> - 52
           in of_int (round_half_even (x / pow2 e)) * pow2 e)"

text \<open>
  \<open>round(x, n)\<close> of a float is correctly rounded: the exact value of \<open>x\<close> is rounded to
  \<open>n\<close> decimals, a tie going to the even neighbour, and the float nearest to that
  decimal is the result.
\<close>

definition py_round :: "rat \<Rightarrow> nat \<Rightarrow> rat" where
  "py_round x n = fl (of_int (round_half_even (x * 10 ^ n)) / 10 ^ n)"

text \<open>
  \<open>a / b\<close> raises \<open>ZeroDivisionError\<close> on a zero divisor. \<open>float_truediv\<close> is the division
  as Python does it, the float nearest to the quotient; an int operand of a float
  division is converted first. \<open>float_mul\<close> is the product of two floats.
\<close>

definition float_truediv :: "rat \<Rightarrow> rat \<Rightarrow> rat res" where
  "float_truediv a b = (if b = 0 then Inl ZeroDivisionError else Inr (fl (a / b)))"

definition float_mul :: "rat \<Rightarrow> rat \<Rightarrow> rat" where
  "float_mul a b = fl (a * b)"

text \<open>
  \<open>truediv\<close> keeps the exact quotient. It stands for \<open>/\<close> where the program derives the
  average of views, which it shows as it is or rounds to an integer; the counts of the
  platform are far below \<open>2^52\<close>, up to where the rounded quotient and the rounded float
  are the same integer.
\<close>

definition truediv :: "rat \<Rightarrow> rat \<Rightarrow> rat res" where
  "truediv a b = (if b = 0 then Inl ZeroDivisionError else Inr (a / b))"


section \<open>The platform API client\<close>

text \<open>
  The client is the collaborator: each field is one request with its \<open>execute()\<close>, giving
  the response or the exception it raised. \<open>youtube\<close> is \<open>None\<close> until the client has been
  built from the credential.
\<close>

record client =
  search_list :: "pystr \<Rightarrow> int \<Rightarrow> pystr \<Rightarrow> json res"
  videos_list :: "pystr \<Rightarrow> json res"
  channels_list :: "pystr \<Rightarrow> json res"
  commentThreads_list :: "pystr \<Rightarrow> json res"
  playlistItems_list :: "json \<Rightarrow> json res"

section \<open>app.py\<close>

record VideoInfo =
  v_video_id :: pystr
  v_title :: pystr
  v_channel_id :: pystr
  v_channel_title :: pystr
  v_published_at :: pystr
  v_view_count :: int
  v_like_count :: int
  v_comment_count :: int
  v_duration :: pystr
  v_thumbnail_url :: pystr
  v_engagement_rate :: rat
  v_description :: pystr

record ChannelInfo =
  c_channel_id :: pystr
  c_title :: pystr
  c_description :: pystr
  c_subscriber_count :: int
  c_video_count :: int
  c_view_count :: int
  c_published_at :: pystr
  c_thumbnail_url :: pystr
  c_average_views :: rat

text \<open>
  A field declared \<open>str\<close> in a response model takes a string; anything else fails the
  model's validation.
\<close>

fun str_field :: "json \<Rightarrow> pystr res" where
  "str_field (JStr s) = Inr s"
| "str_field _ = Inl ValidationError"

text \<open>The literals of the source that are not ASCII, as code points.\<close>

definition msg_unavailable :: pystr where
  "msg_unavailable = u ''YouTube API'' @ [12364, 21033, 29992, 12391, 12365, 12414, 12379, 12435]"

definition msg_video_not_found :: pystr where
  "msg_video_not_found = [21205, 30011, 12364, 35211, 12388, 12363, 12426, 12414, 12379, 12435]"

definition msg_channel_not_found :: pystr where
  "msg_channel_not_found =
     [12481, 12515, 12531, 12493, 12523, 12364, 35211, 12388, 12363, 12426, 12414, 12379, 12435]"

definition msg_too_many :: pystr where
  "msg_too_many =
     [19968, 24230, 12395, 27604, 36611, 12391, 12365, 12427, 12481, 12515, 12531, 12493, 12523,
      12399, 53, 12388, 12414, 12391, 12391, 12377]"

definition test_video :: VideoInfo where
  "test_video =
     \<lparr> v_video_id = u ''test123'',
       v_title = u ''Python '' @ [12503, 12525, 12464, 12521, 12511, 12531, 12464, 20837, 38272],
       v_channel_id = u ''ch123'',
       v_channel_title = [12486, 12473, 12488, 12481, 12515, 12531, 12493, 12523],
       v_published_at = u ''2024-01-01T00:00:00Z'',
       v_view_count = 10000,
       v_like_count = 500,
       v_comment_count = 50,
       v_duration = u ''PT10M30S'',
       v_thumbnail_url = u ''https://via.placeholder.com/320x180'',
       v_engagement_rate = 11 / 2,
       v_description =
         [12371, 12428, 12399, 12486, 12473, 12488, 12487, 12540, 12479, 12391, 12377] @ u ''...'' \<rparr>"

text \<open>
  The two handlers every endpoint ends with: an \<open>HttpError\<close> keeps its status, any other
  exception becomes status 500 with \<open>str(e)\<close> as detail. An \<open>HTTPException\<close> raised inside
  the \<open>try\<close> is an \<open>Exception\<close> too and takes the second handler.
\<close>

fun http_guard :: "'a res \<Rightarrow> 'a res" where
  "http_guard (Inr x) = Inr x"
| "http_guard (Inl (HttpError st)) = Inl (HTTPException st (StrOf (HttpError st)))"
| "http_guard (Inl e) = Inl (HTTPException 500 (StrOf e))"

text \<open>A loop that builds a list and is left by the first exception.\<close>

fun collect :: "('a \<Rightarrow> 'b res) \<Rightarrow> 'a list \<Rightarrow> 'b list res" where
  "collect f [] = Inr []"
| "collect f (x # xs) = bnd (f x) (\<lambda>y. bnd (collect f xs) (\<lambda>ys. Inr (y # ys)))"

text \<open>\<open>','.join(xs)\<close>: every element has to be a string.\<close>

fun str_join_item :: "json \<Rightarrow> pystr res" where
  "str_join_item (JStr s) = Inr s"
| "str_join_item _ = Inl TypeError"

fun join_comma :: "json list \<Rightarrow> pystr res" where
  "join_comma [] = Inr []"
| "join_comma [x] = str_join_item x"
| "join_comma (x # xs) =
     bnd (str_join_item x) (\<lambda>s. bnd (join_comma xs) (\<lambda>t. Inr (s @ [44] @ t)))"

subsection \<open>\<open>search_videos\<close>\<close>

text \<open>Line 174: \<open>snippet['description'][:200] + "..."\<close>.\<close>

fun truncated :: "json \<Rightarrow> json res" where
  "truncated (JStr s) = Inr (JStr (take 200 s @ u ''...''))"
| "truncated _ = Inl TypeError"

definition app_search_description :: "json \<Rightarrow> json res" where
  "app_search_description snippet = bnd (subscript snippet (u ''description'')) truncated"

text \<open>Lines 172 and 290: \<open>snippet['thumbnails']['high']['url']\<close>.\<close>

definition app_thumbnail :: "json \<Rightarrow> json res" where
  "app_thumbnail snippet =
     bnd (subscript snippet (u ''thumbnails'')) (\<lambda>thumbnails.
     bnd (subscript thumbnails (u ''high'')) (\<lambda>high.
     subscript high (u ''url'')))"

text \<open>\<open>int(stats.get(k, d))\<close>.\<close>

definition int_stat :: "json \<Rightarrow> pystr \<Rightarrow> int \<Rightarrow> int res" where
  "int_stat stats k d = bnd (dict_get stats k (JNum d)) py_int"

text \<open>Lines 158 to 160 and 173.\<close>

definition app_engagement_rate :: "int \<Rightarrow> int \<Rightarrow> int \<Rightarrow> rat res" where
  "app_engagement_rate view_count like_count comment_count =
     bnd (if view_count > 0
          then bnd (float_truediv (of_int (like_count + comment_count)) (of_int view_count))
                 (\<lambda>q. Inr (float_mul q 100))
          else Inr 0)
       (\<lambda>engagement_rate. Inr (py_round engagement_rate 2))"

text \<open>The body of the loop over \<open>videos_response['items']\<close>, lines 150 to 175.\<close>

definition video_info_of_item :: "json \<Rightarrow> VideoInfo res" where
  "video_info_of_item item =
     bnd (subscript item (u ''statistics'')) (\<lambda>stats.
     bnd (subscript item (u ''snippet'')) (\<lambda>snippet.
     bnd (int_stat stats (u ''viewCount'') 0) (\<lambda>view_count.
     bnd (int_stat stats (u ''likeCount'') 0) (\<lambda>like_count.
     bnd (int_stat stats (u ''commentCount'') 0) (\<lambda>comment_count.
     bnd (subscript item (u ''id'')) (\<lambda>j_id.
     bnd (subscript snippet (u ''title'')) (\<lambda>j_title.
     bnd (subscript snippet (u ''channelId'')) (\<lambda>j_channel_id.
     bnd (subscript snippet (u ''channelTitle'')) (\<lambda>j_channel_title.
     bnd (subscript snippet (u ''publishedAt'')) (\<lambda>j_published_at.
     bnd (bnd (subscript item (u ''contentDetails'')) (\<lambda>cd. subscript cd (u ''duration'')))
       (\<lambda>j_duration.
     bnd (app_thumbnail snippet) (\<lambda>j_thumbnail_url.
     bnd (app_engagement_rate view_count like_count comment_count) (\<lambda>engagement_rate.
     bnd (app_search_description snippet) (\<lambda>j_description.
     bnd (str_field j_id) (\<lambda>s_id.
     bnd (str_field j_title) (\<lambda>s_title.
     bnd (str_field j_channel_id) (\<lambda>s_channel_id.
     bnd (str_field j_channel_title) (\<lambda>s_channel_title.
     bnd (str_field j_published_at) (\<lambda>s_published_at.
     bnd (str_field j_duration) (\<lambda>s_duration.
     bnd (str_field j_thumbnail_url) (\<lambda>s_thumbnail_url.
     bnd (str_field j_description) (\<lambda>s_description.
     Inr \<lparr> v_video_id = s_id, v_title = s_title, v_channel_id = s_channel_id,
           v_channel_title = s_channel_title, v_published_at = s_published_at,
           v_view_count = view_count, v_like_count = like_count,
           v_comment_count = comment_count, v_duration = s_duration,
           v_thumbnail_url = s_thumbnail_url, v_engagement_rate = engagement_rate,
           v_description = s_description \<rparr>))))))))))))))))))))))"

text \<open>
  Lines 101 to 183. The first test of \<open>youtube\<close> returns the test record; the second test,
  which raises status 503, comes after it.
\<close>

definition app_search_videos :: "client option \<Rightarrow> pystr \<Rightarrow> int \<Rightarrow> pystr \<Rightarrow> VideoInfo list res" where
  "app_search_videos youtube keyword max_results order =
     (if youtube = None then Inr [test_video]
      else if youtube = None then Inl (HTTPException 503 (Text msg_unavailable))
      else http_guard
        (bnd (search_list (the youtube) keyword max_results order) (\<lambda>search_response.
         bnd (subscript search_response (u ''items'')) (\<lambda>found.
         bnd (iterate found) (\<lambda>hits.
         bnd (collect (\<lambda>item. bnd (subscript item (u ''id''))
                                 (\<lambda>i. subscript i (u ''videoId''))) hits) (\<lambda>video_ids.
         bnd (join_comma video_ids) (\<lambda>ids.
         bnd (videos_list (the youtube) ids) (\<lambda>videos_response.
         bnd (subscript videos_response (u ''items'')) (\<lambda>items.
         bnd (iterate items) (\<lambda>its.
         collect video_info_of_item its))))))))))"

subsection \<open>\<open>analyze_video\<close>\<close>

record comment =
  cm_text :: json
  cm_likeCount :: json
  cm_publishedAt :: json

record video_analysis =
  va_title :: json
  va_channel :: json
  va_published_at :: json
  va_description :: json
  va_view_count :: int
  va_like_count :: int
  va_dislike_count :: int
  va_comment_count :: int
  va_engagement_rate :: rat
  va_tags :: json
  va_top_comments :: "comment list"
  va_duration :: json
  va_definition :: json
  va_caption :: json

text \<open>\<open>comment['snippet']['topLevelComment']['snippet'][k]\<close>.\<close>

definition top_level_field :: "json \<Rightarrow> pystr \<Rightarrow> json res" where
  "top_level_field c k =
     bnd (subscript c (u ''snippet'')) (\<lambda>s1.
     bnd (subscript s1 (u ''topLevelComment'')) (\<lambda>t.
     bnd (subscript t (u ''snippet'')) (\<lambda>s2.
     subscript s2 k)))"

definition comment_of :: "json \<Rightarrow> comment res" where
  "comment_of c =
     bnd (top_level_field c (u ''textDisplay'')) (\<lambda>t.
     bnd (top_level_field c (u ''likeCount'')) (\<lambda>l.
     bnd (top_level_field c (u ''publishedAt'')) (\<lambda>p.
     Inr \<lparr> cm_text = t, cm_likeCount = l, cm_publishedAt = p \<rparr>)))"

text \<open>Lines 207 to 223: any exception while the comments are fetched leaves the list empty.\<close>

definition top_comments :: "client \<Rightarrow> pystr \<Rightarrow> comment list" where
  "top_comments yt video_id =
     (case bnd (commentThreads_list yt video_id) (\<lambda>comments_response.
           bnd (subscript comments_response (u ''items'')) (\<lambda>items.
           bnd (iterate items) (collect comment_of)))
      of Inl e \<Rightarrow> [] | Inr comments \<Rightarrow> comments)"

text \<open>\<open>tags[:10]\<close>.\<close>

fun slice_to :: "nat \<Rightarrow> json \<Rightarrow> json res" where
  "slice_to n (JArr xs) = Inr (JArr (take n xs))"
| "slice_to n (JStr s) = Inr (JStr (take n s))"
| "slice_to n _ = Inl TypeError"

text \<open>Line 240: the divisor is \<open>int(stats.get('viewCount', 1))\<close>.\<close>

definition video_engagement_rate :: "json \<Rightarrow> rat res" where
  "video_engagement_rate stats =
     bnd (int_stat stats (u ''likeCount'') 0) (\<lambda>like_count.
     bnd (int_stat stats (u ''commentCount'') 0) (\<lambda>comment_count.
     bnd (int_stat stats (u ''viewCount'') 1) (\<lambda>views.
     bnd (float_truediv (of_int (like_count + comment_count)) (of_int views)) (\<lambda>q.
     Inr (py_round (float_mul q 100) 2)))))"

definition analyze_video :: "client option \<Rightarrow> pystr \<Rightarrow> video_analysis res" where
  "analyze_video youtube video_id =
     (if youtube = None then Inl (HTTPException 503 (Text msg_unavailable))
      else http_guard
        (bnd (videos_list (the youtube) video_id) (\<lambda>video_response.
         bnd (subscript video_response (u ''items'')) (\<lambda>items.
         if \<not> truthy items then Inl (HTTPException 404 (Text msg_video_not_found))
         else
         bnd (first_item items) (\<lambda>item.
         bnd (subscript item (u ''statistics'')) (\<lambda>stats.
         bnd (subscript item (u ''snippet'')) (\<lambda>snippet.
         bnd (Inr (top_comments (the youtube) video_id)) (\<lambda>comments.
         bnd (dict_get snippet (u ''tags'') (JArr [])) (\<lambda>tags.
         bnd (subscript snippet (u ''title'')) (\<lambda>j_title.
         bnd (subscript snippet (u ''channelTitle'')) (\<lambda>j_channel.
         bnd (subscript snippet (u ''publishedAt'')) (\<lambda>j_published_at.
         bnd (subscript snippet (u ''description'')) (\<lambda>j_description.
         bnd (int_stat stats (u ''viewCount'') 0) (\<lambda>view_count.
         bnd (int_stat stats (u ''likeCount'') 0) (\<lambda>like_count.
         bnd (int_stat stats (u ''dislikeCount'') 0) (\<lambda>dislike_count.
         bnd (int_stat stats (u ''commentCount'') 0) (\<lambda>comment_count.
         bnd (video_engagement_rate stats) (\<lambda>engagement_rate.
         bnd (slice_to 10 tags) (\<lambda>tags10.
         bnd (subscript item (u ''contentDetails'')) (\<lambda>cd1.
         bnd (subscript cd1 (u ''duration'')) (\<lambda>j_duration.
         bnd (subscript item (u ''contentDetails'')) (\<lambda>cd2.
         bnd (subscript cd2 (u ''definition'')) (\<lambda>j_definition.
         bnd (subscript item (u ''contentDetails'')) (\<lambda>cd3.
         bnd (dict_get cd3 (u ''caption'') (JStr (u ''false''))) (\<lambda>j_caption.
         Inr \<lparr> va_title = j_title, va_channel = j_channel, va_published_at = j_published_at,
               va_description = j_description, va_view_count = view_count,
               va_like_count = like_count, va_dislike_count = dislike_count,
               va_comment_count = comment_count, va_engagement_rate = engagement_rate,
               va_tags = tags10, va_top_comments = comments, va_duration = j_duration,
               va_definition = j_definition, va_caption = j_caption \<rparr>
         )))))))))))))))))))))))))"

subsection \<open>\<open>analyze_channel\<close>\<close>

text \<open>Line 285: \<open>snippet['description'][:200] + "..." if snippet['description'] else ""\<close>.\<close>

definition app_channel_description :: "json \<Rightarrow> json res" where
  "app_channel_description snippet =
     bnd (subscript snippet (u ''description'')) (\<lambda>d.
     if truthy d then bnd (subscript snippet (u ''description'')) truncated
     else Inr (JStr []))"

text \<open>Line 280, and the rounding of line 291.\<close>

definition app_average_views :: "int \<Rightarrow> int \<Rightarrow> rat res" where
  "app_average_views views videos =
     bnd (if videos > 0 then truediv (of_int views) (of_int videos) else Inr 0)
       (\<lambda>average_views. Inr (py_round average_views 0))"

definition app_analyze_channel :: "client option \<Rightarrow> pystr \<Rightarrow> ChannelInfo res" where
  "app_analyze_channel youtube channel_id =
     (if youtube = None then Inl (HTTPException 503 (Text msg_unavailable))
      else http_guard
        (bnd (channels_list (the youtube) channel_id) (\<lambda>channel_response.
         bnd (subscript channel_response (u ''items'')) (\<lambda>items.
         if \<not> truthy items then Inl (HTTPException 404 (Text msg_channel_not_found))
         else
         bnd (first_item items) (\<lambda>item.
         bnd (subscript item (u ''statistics'')) (\<lambda>stats.
         bnd (subscript item (u ''snippet'')) (\<lambda>snippet.
         bnd (int_stat stats (u ''viewCount'') 0) (\<lambda>view_count.
         bnd (int_stat stats (u ''videoCount'') 1) (\<lambda>video_count.
         bnd (subscript snippet (u ''title'')) (\<lambda>j_title.
         bnd (app_channel_description snippet) (\<lambda>j_description.
         bnd (int_stat stats (u ''subscriberCount'') 0) (\<lambda>subscriber_count.
         bnd (subscript snippet (u ''publishedAt'')) (\<lambda>j_published_at.
         bnd (app_thumbnail snippet) (\<lambda>j_thumbnail_url.
         bnd (app_average_views view_count video_count) (\<lambda>average_views.
         bnd (str_field j_title) (\<lambda>s_title.
         bnd (str_field j_description) (\<lambda>s_description.
         bnd (str_field j_published_at) (\<lambda>s_published_at.
         bnd (str_field j_thumbnail_url) (\<lambda>s_thumbnail_url.
         Inr \<lparr> c_channel_id = channel_id, c_title = s_title, c_description = s_description,
               c_subscriber_count = subscriber_count, c_video_count = video_count,
               c_view_count = view_count, c_published_at = s_published_at,
               c_thumbnail_url = s_thumbnail_url, c_average_views = average_views \<rparr>
         )))))))))))))))))))"

subsection \<open>\<open>compare_channels\<close>\<close>

record growth_entry =
  g_channel :: pystr
  g_engagement_score :: rat
  g_rating :: pystr

record comparison_metrics =
  m_avg_subscribers :: int
  m_avg_videos :: int
  m_avg_views :: int
  m_avg_views_per_video :: int
  m_growth_potential :: "growth_entry list"

record ChannelComparison =
  cc_channels :: "ChannelInfo list"
  cc_comparison_metrics :: comparison_metrics

text \<open>\<open>int(df[col].mean())\<close>: the mean of a column that is not empty, cut towards zero.\<close>

definition py_trunc :: "rat \<Rightarrow> int" where
  "py_trunc x = (if 0 \<le> x then \<lfloor>x\<rfloor> else \<lceil>x\<rceil>)"

definition int_mean :: "rat list \<Rightarrow> int" where
  "int_mean xs = py_trunc (sum_list xs / of_nat (length xs))"

definition col_subscriber_count :: "ChannelInfo \<Rightarrow> rat" where
  "col_subscriber_count c = of_int (c_subscriber_count c)"

definition col_video_count :: "ChannelInfo \<Rightarrow> rat" where
  "col_video_count c = of_int (c_video_count c)"

definition col_view_count :: "ChannelInfo \<Rightarrow> rat" where
  "col_view_count c = of_int (c_view_count c)"

text \<open>Line 401.\<close>

definition rating :: "rat \<Rightarrow> pystr" where
  "rating engagement_score =
     (if engagement_score > 10 then u ''High''
      else if engagement_score > 5 then u ''Medium'' else u ''Low'')"

text \<open>
  Line 397, in float arithmetic: the subscriber count is converted, the quotient and the
  product are rounded. The division is behind the test \<open>subscriber_count > 0\<close> of line
  396.
\<close>

definition engagement_score_of :: "ChannelInfo \<Rightarrow> rat" where
  "engagement_score_of channel =
     float_mul (fl (c_average_views channel / fl (of_int (c_subscriber_count channel)))) 100"

text \<open>Lines 395 to 402, the loop over the rows with the list it appends to.\<close>

fun growth_potential :: "ChannelInfo list \<Rightarrow> growth_entry list \<Rightarrow> growth_entry list" where
  "growth_potential [] acc = acc"
| "growth_potential (channel # rows) acc =
     (if c_subscriber_count channel > 0 then
        (let engagement_score = engagement_score_of channel
         in growth_potential rows
              (acc @ [\<lparr> g_channel = c_title channel,
                         g_engagement_score = py_round engagement_score 2,
                         g_rating = rating engagement_score \<rparr>]))
      else growth_potential rows acc)"

text \<open>
  Lines 377 to 402. A frame without rows has no column to read. The three rankings of
  lines 386 to 390 are lists of titles in the order of pandas' \<open>sort_values\<close>; pandas is
  not code of the repository, and the rankings are left out of the record.
\<close>

definition comparison_metrics_of :: "ChannelInfo list \<Rightarrow> comparison_metrics res" where
  "comparison_metrics_of df =
     (if df = [] then Inl (KeyError (JStr (u ''subscriber_count'')))
      else Inr \<lparr> m_avg_subscribers = int_mean (map col_subscriber_count df),
                 m_avg_videos = int_mean (map col_video_count df),
                 m_avg_views = int_mean (map col_view_count df),
                 m_avg_views_per_video = int_mean (map c_average_views df),
                 m_growth_potential = growth_potential df [] \<rparr>)"

text \<open>The only handler of \<open>compare_channels\<close>: every exception becomes status 500.\<close>

fun except_exception :: "'a res \<Rightarrow> 'a res" where
  "except_exception (Inr x) = Inr x"
| "except_exception (Inl e) = Inl (HTTPException 500 (StrOf e))"

definition compare_channels :: "client option \<Rightarrow> pystr list \<Rightarrow> ChannelComparison res" where
  "compare_channels youtube channel_ids =
     (if youtube = None then Inl (HTTPException 503 (Text msg_unavailable))
      else if length channel_ids > 5 then Inl (HTTPException 400 (Text msg_too_many))
      else except_exception
        (bnd (collect (app_analyze_channel youtube) channel_ids) (\<lambda>channels_data.
         bnd (comparison_metrics_of channels_data) (\<lambda>comparison_metrics.
         Inr \<lparr> cc_channels = channels_data,
               cc_comparison_metrics = comparison_metrics \<rparr>))))"

section \<open>streamlit_app.py\<close>

text \<open>
  The dashboard reports through \<open>st.error\<close> and \<open>st.warning\<close>; a function of the dashboard
  returns the messages it has shown together with its value.
\<close>

datatype st_msg = StError detail | StWarning detail

definition st_not_initialized :: pystr where
  "st_not_initialized =
     u ''YouTube API'' @
     [12364, 21021, 26399, 21270, 12373, 12428, 12390, 12356, 12414, 12379, 12435, 12290] @
     u ''API'' @
     [12461, 12540, 12434, 30906, 35469, 12375, 12390, 12367, 12384, 12373, 12356, 12290]"

definition st_no_results :: pystr where
  "st_no_results =
     [26908, 32034, 32080, 26524, 12364, 35211, 12388, 12363, 12426, 12414, 12379, 12435,
      12391, 12375, 12383, 12290]"

definition st_no_details :: pystr where
  "st_no_details =
     [21205, 30011, 12398, 35443, 32048, 24773, 22577, 12434, 21462, 24471, 12391, 12365,
      12414, 12379, 12435, 12391, 12375, 12383, 12290]"

definition st_channel_not_found :: pystr where
  "st_channel_not_found =
     [12481, 12515, 12531, 12493, 12523, 12364, 35211, 12388, 12363, 12426, 12414, 12379,
      12435, 12290, 12481, 12515, 12531, 12493, 12523] @ u ''ID'' @
     [12434, 30906, 35469, 12375, 12390, 12367, 12384, 12373, 12356, 12290]"

definition st_api_error :: pystr where
  "st_api_error = u ''API'' @ [12456, 12521, 12540] @ u '': ''"

definition st_unexpected :: pystr where
  "st_unexpected =
     [20104, 26399, 12375, 12394, 12356, 12456, 12521, 12540, 12364, 30330, 29983, 12375,
      12414, 12375, 12383] @ u '': ''"

definition st_recent_failed :: pystr where
  "st_recent_failed =
     [26368, 26032, 21205, 30011, 12398, 21462, 24471, 12395, 22833, 25943, 12375, 12414,
      12375, 12383] @ u '': ''"

definition st_fetch_failed :: "pystr \<Rightarrow> pystr" where
  "st_fetch_failed channel_id =
     [12481, 12515, 12531, 12493, 12523] @ u ''ID '' @ channel_id @
     [32, 12398, 21462, 24471, 12395, 22833, 25943, 12375, 12414, 12375, 12383] @ u '': ''"

definition title_unknown :: pystr where
  "title_unknown = [12479, 12452, 12488, 12523, 19981, 26126]"

definition channel_unknown :: pystr where
  "channel_unknown = [12481, 12515, 12531, 12493, 12523, 19981, 26126]"

definition channel_name_unknown :: pystr where
  "channel_name_unknown = [12481, 12515, 12531, 12493, 12523, 21517, 19981, 26126]"

definition no_description :: pystr where
  "no_description = [35500, 26126, 12394, 12375]"

text \<open>The two handlers at the end of \<open>search_videos\<close> and \<open>analyze_channel\<close>.\<close>

fun st_guard :: "'a \<Rightarrow> (st_msg list \<times> 'a) res \<Rightarrow> st_msg list \<times> 'a" where
  "st_guard none (Inr out) = out"
| "st_guard none (Inl (HttpError st)) = ([StError (Prefixed st_api_error (HttpError st))], none)"
| "st_guard none (Inl e) = ([StError (Prefixed st_unexpected e)], none)"

text \<open>\<open>'items' not in response or not response['items']\<close>.\<close>

definition no_items :: "json \<Rightarrow> bool res" where
  "no_items response =
     bnd (contains (u ''items'') response) (\<lambda>present.
     if \<not> present then Inr True
     else bnd (subscript response (u ''items'')) (\<lambda>items. Inr (\<not> truthy items)))"

text \<open>
  Lines 119 to 122 and 170 to 173, with the resolution key the place asks for:
  \<open>'medium'\<close> in \<open>search_videos\<close>, \<open>'high'\<close> in \<open>analyze_channel\<close>.
\<close>

definition streamlit_thumbnail :: "pystr \<Rightarrow> json \<Rightarrow> json res" where
  "streamlit_thumbnail key snippet =
     bnd (contains (u ''thumbnails'') snippet) (\<lambda>has_thumbnails.
     if \<not> has_thumbnails then Inr (JStr [])
     else
     bnd (subscript snippet (u ''thumbnails'')) (\<lambda>thumbnails.
     bnd (contains key thumbnails) (\<lambda>has_key.
     if \<not> has_key then Inr (JStr [])
     else
     bnd (subscript snippet (u ''thumbnails'')) (\<lambda>thumbnails2.
     bnd (subscript thumbnails2 key) (\<lambda>entry.
     subscript entry (u ''url''))))))"

text \<open>\<open>snippet.get('publishedAt', '')[:10] if snippet.get('publishedAt') else ''\<close>.\<close>

definition date_of :: "json \<Rightarrow> json res" where
  "date_of snippet =
     bnd (dict_get snippet (u ''publishedAt'') JNull) (\<lambda>p.
     if truthy p then bnd (dict_get snippet (u ''publishedAt'') (JStr [])) (slice_to 10)
     else Inr (JStr []))"

text \<open>Lines 115 to 117 and 131.\<close>

definition streamlit_engagement_rate :: "int \<Rightarrow> int \<Rightarrow> int \<Rightarrow> rat res" where
  "streamlit_engagement_rate view_count like_count comment_count =
     bnd (if view_count > 0
          then bnd (float_truediv (of_int (like_count + comment_count)) (of_int view_count))
                 (\<lambda>q. Inr (float_mul q 100))
          else Inr 0)
       (\<lambda>engagement_rate. Inr (py_round engagement_rate 2))"

record video_row =
  r_title :: json
  r_channel :: json
  r_published :: json
  r_view_count :: int
  r_like_count :: int
  r_comment_count :: int
  r_engagement_rate :: rat
  r_video_id :: json
  r_thumbnail :: json

text \<open>The body of the loop of \<open>search_videos\<close>, lines 107 to 134.\<close>

definition video_row_of_item :: "json \<Rightarrow> video_row res" where
  "video_row_of_item item =
     bnd (dict_get item (u ''statistics'') (JObj [])) (\<lambda>stats.
     bnd (dict_get item (u ''snippet'') (JObj [])) (\<lambda>snippet.
     bnd (int_stat stats (u ''viewCount'') 0) (\<lambda>view_count.
     bnd (int_stat stats (u ''likeCount'') 0) (\<lambda>like_count.
     bnd (int_stat stats (u ''commentCount'') 0) (\<lambda>comment_count.
     bnd (streamlit_engagement_rate view_count like_count comment_count) (\<lambda>engagement_rate.
     bnd (streamlit_thumbnail (u ''medium'') snippet) (\<lambda>thumbnail_url.
     bnd (dict_get snippet (u ''title'') (JStr title_unknown)) (\<lambda>j_title.
     bnd (dict_get snippet (u ''channelTitle'') (JStr channel_unknown)) (\<lambda>j_channel.
     bnd (date_of snippet) (\<lambda>j_published.
     bnd (dict_get item (u ''id'') (JStr [])) (\<lambda>j_id.
     Inr \<lparr> r_title = j_title, r_channel = j_channel, r_published = j_published,
           r_view_count = view_count, r_like_count = like_count,
           r_comment_count = comment_count, r_engagement_rate = engagement_rate,
           r_video_id = j_id, r_thumbnail = thumbnail_url \<rparr>)))))))))))"

definition streamlit_search_videos :: "client option \<Rightarrow> pystr \<Rightarrow> int \<Rightarrow> pystr \<Rightarrow> st_msg list \<times> video_row list" where
  "streamlit_search_videos youtube keyword max_results order =
     (if youtube = None then ([StError (Text st_not_initialized)], [])
      else st_guard []
        (bnd (search_list (the youtube) keyword max_results order) (\<lambda>search_response.
         bnd (no_items search_response) (\<lambda>nothing_found.
         if nothing_found then Inr ([StWarning (Text st_no_results)], [])
         else
         bnd (subscript search_response (u ''items'')) (\<lambda>found.
         bnd (iterate found) (\<lambda>hits.
         bnd (collect (\<lambda>item. bnd (subscript item (u ''id''))
                                 (\<lambda>i. subscript i (u ''videoId''))) hits) (\<lambda>video_ids.
         bnd (join_comma video_ids) (\<lambda>ids.
         bnd (videos_list (the youtube) ids) (\<lambda>videos_response.
         bnd (no_items videos_response) (\<lambda>no_details.
         if no_details then Inr ([StWarning (Text st_no_details)], [])
         else
         bnd (subscript videos_response (u ''items'')) (\<lambda>items.
         bnd (iterate items) (\<lambda>its.
         bnd (collect video_row_of_item its) (\<lambda>videos_data.
         Inr ([], videos_data))))))))))))))"

subsection \<open>\<open>analyze_channel\<close>\<close>

record channel_data =
  d_name :: json
  d_subscribers :: int
  d_videos :: int
  d_views :: int
  d_opened :: json
  d_description :: json
  d_thumbnail :: json

record recent_row =
  rv_title :: json
  rv_published :: json

text \<open>
  Line 181:
  \<open>(snippet.get('description', '')[:200] + "...") if snippet.get('description') else\<close>
  the placeholder.
\<close>

definition streamlit_description :: "json \<Rightarrow> json res" where
  "streamlit_description snippet =
     bnd (dict_get snippet (u ''description'') JNull) (\<lambda>d.
     if truthy d then bnd (dict_get snippet (u ''description'') (JStr [])) truncated
     else Inr (JStr no_description))"

definition recent_row_of :: "json \<Rightarrow> recent_row res" where
  "recent_row_of video =
     bnd (dict_get video (u ''snippet'') (JObj [])) (\<lambda>video_snippet.
     bnd (dict_get video_snippet (u ''title'') (JStr title_unknown)) (\<lambda>j_title.
     bnd (date_of video_snippet) (\<lambda>j_published.
     Inr \<lparr> rv_title = j_title, rv_published = j_published \<rparr>)))"

text \<open>The inner handler, lines 207 and 208: only an \<open>HttpError\<close> becomes a warning.\<close>

fun recent_guard :: "(st_msg list \<times> recent_row list) res \<Rightarrow> (st_msg list \<times> recent_row list) res" where
  "recent_guard (Inl (HttpError st)) =
     Inr ([StWarning (Prefixed st_recent_failed (HttpError st))], [])"
| "recent_guard r = r"

text \<open>\<open>k in v and v[k]\<close> as a condition.\<close>

definition present_and_true :: "pystr \<Rightarrow> json \<Rightarrow> bool res" where
  "present_and_true k v =
     bnd (contains k v) (\<lambda>present.
     if present then bnd (subscript v k) (\<lambda>x. Inr (truthy x)) else Inr False)"

text \<open>Lines 186 to 208.\<close>

definition recent_videos_of :: "client \<Rightarrow> json \<Rightarrow> (st_msg list \<times> recent_row list) res" where
  "recent_videos_of yt content_details =
     bnd (contains (u ''relatedPlaylists'') content_details) (\<lambda>has_playlists.
     bnd (if has_playlists
          then bnd (subscript content_details (u ''relatedPlaylists'')) (contains (u ''uploads''))
          else Inr False) (\<lambda>has_uploads.
     if \<not> has_uploads then Inr ([], [])
     else
     bnd (subscript content_details (u ''relatedPlaylists'')) (\<lambda>related.
     bnd (subscript related (u ''uploads'')) (\<lambda>playlist_id.
     recent_guard
       (bnd (playlistItems_list yt playlist_id) (\<lambda>playlist_response.
        bnd (present_and_true (u ''items'') playlist_response) (\<lambda>some_items.
        if \<not> some_items then Inr ([], [])
        else
        bnd (subscript playlist_response (u ''items'')) (\<lambda>items.
        bnd (iterate items) (\<lambda>videos.
        bnd (collect recent_row_of videos) (\<lambda>recent_videos_data.
        Inr ([], recent_videos_data)))))))))))"

definition streamlit_analyze_channel :: "client option \<Rightarrow> pystr \<Rightarrow> st_msg list \<times> channel_data option \<times> recent_row list" where
  "streamlit_analyze_channel youtube channel_id =
     (if youtube = None then ([StError (Text st_not_initialized)], None, [])
      else st_guard (None, [])
        (bnd (channels_list (the youtube) channel_id) (\<lambda>channel_response.
         bnd (if \<not> truthy channel_response then Inr True else no_items channel_response)
           (\<lambda>not_found.
         if not_found then Inr ([StError (Text st_channel_not_found)], None, [])
         else
         bnd (bnd (subscript channel_response (u ''items'')) first_item) (\<lambda>item.
         bnd (dict_get item (u ''statistics'') (JObj [])) (\<lambda>stats.
         bnd (dict_get item (u ''snippet'') (JObj [])) (\<lambda>snippet.
         bnd (dict_get item (u ''contentDetails'') (JObj [])) (\<lambda>content_details.
         bnd (streamlit_thumbnail (u ''high'') snippet) (\<lambda>thumbnail_url.
         bnd (dict_get snippet (u ''title'') (JStr channel_name_unknown)) (\<lambda>j_name.
         bnd (int_stat stats (u ''subscriberCount'') 0) (\<lambda>subscribers.
         bnd (int_stat stats (u ''videoCount'') 0) (\<lambda>videos.
         bnd (int_stat stats (u ''viewCount'') 0) (\<lambda>views.
         bnd (date_of snippet) (\<lambda>j_opened.
         bnd (streamlit_description snippet) (\<lambda>j_description.
         bnd (recent_videos_of (the youtube) content_details) (\<lambda>recent.
         Inr (fst recent,
              Some \<lparr> d_name = j_name, d_subscribers = subscribers, d_videos = videos,
                     d_views = views, d_opened = j_opened, d_description = j_description,
                     d_thumbnail = thumbnail_url \<rparr>,
              snd recent)))))))))))))))))"

subsection \<open>The branches of the page\<close>

text \<open>
  Line 327, channel analysis:
  \<open>channel_data[views] / max(channel_data[videos], 1)\<close>.
\<close>

definition channel_branch_avg_views :: "channel_data \<Rightarrow> rat res" where
  "channel_branch_avg_views cd = truediv (of_int (d_views cd)) (of_int (max (d_videos cd) 1))"

record comparison_row =
  cr_name :: json
  cr_subscribers :: int
  cr_videos :: int
  cr_views :: int
  cr_avg_views :: rat

text \<open>
  Lines 467 and 474, competitor comparison: \<open>video_count = max(n, 1)\<close> for the parsed
  \<open>n\<close>, then \<open>views / video_count\<close>.
\<close>

definition comparison_avg_views :: "int \<Rightarrow> int \<Rightarrow> rat res" where
  "comparison_avg_views views n = truediv (of_int views) (of_int (max n 1))"

text \<open>Lines 463 to 475: one row of \<open>comparison_data\<close>.\<close>

definition comparison_row_of :: "json \<Rightarrow> comparison_row res" where
  "comparison_row_of item =
     bnd (dict_get item (u ''statistics'') (JObj [])) (\<lambda>stats.
     bnd (dict_get item (u ''snippet'') (JObj [])) (\<lambda>snippet.
     bnd (int_stat stats (u ''videoCount'') 1) (\<lambda>n.
     bnd (dict_get snippet (u ''title'') (JStr channel_name_unknown)) (\<lambda>j_name.
     bnd (int_stat stats (u ''subscriberCount'') 0) (\<lambda>subscribers.
     bnd (int_stat stats (u ''videoCount'') 0) (\<lambda>videos.
     bnd (int_stat stats (u ''viewCount'') 0) (\<lambda>views.
     bnd (int_stat stats (u ''viewCount'') 0) (\<lambda>views2.
     bnd (comparison_avg_views views2 n) (\<lambda>avg.
     Inr \<lparr> cr_name = j_name, cr_subscribers = subscribers, cr_videos = videos,
           cr_views = views, cr_avg_views = avg \<rparr>)))))))))"

text \<open>
  Lines 455 to 477: a channel whose request or row raises is left out with a warning, a
  channel without items is left out silently.
\<close>

fun comparison_data :: "client \<Rightarrow> pystr list \<Rightarrow> st_msg list \<times> comparison_row list" where
  "comparison_data yt [] = ([], [])"
| "comparison_data yt (channel_id # channels) =
     (let rest = comparison_data yt channels
      in case bnd (channels_list yt channel_id) (\<lambda>channel_response.
              bnd (if truthy channel_response
                   then present_and_true (u ''items'') channel_response
                   else Inr False) (\<lambda>found.
              if \<not> found then Inr None
              else
              bnd (bnd (subscript channel_response (u ''items'')) first_item) (\<lambda>item.
              bnd (comparison_row_of item) (\<lambda>row. Inr (Some row)))))
         of Inl e \<Rightarrow> (StWarning (Prefixed (st_fetch_failed channel_id) e) # fst rest, snd rest)
          | Inr None \<Rightarrow> rest
          | Inr (Some row) \<Rightarrow> (fst rest, row # snd rest))"

subsection \<open>Keyword analysis\<close>

text \<open>\<open>str.split()\<close>: the maximal runs of characters that are not whitespace.\<close>

fun split_acc :: "pystr \<Rightarrow> pystr \<Rightarrow> pystr list" where
  "split_acc [] cur = (if cur = [] then [] else [rev cur])"
| "split_acc (c # cs) cur =
     (if py_isspace c then (if cur = [] then split_acc cs [] else rev cur # split_acc cs [])
      else split_acc cs (c # cur))"

definition split :: "pystr \<Rightarrow> pystr list" where
  "split s = split_acc s []"

text \<open>
  \<open>keywords[word] = keywords.get(word, 0) + 1\<close> on a dict, which keeps its keys in the order
  of their first insertion.
\<close>

fun increment :: "(pystr \<times> int) list \<Rightarrow> pystr \<Rightarrow> (pystr \<times> int) list" where
  "increment [] word = [(word, 0 + 1)]"
| "increment ((k, n) # kvs) word =
     (if k = word then (k, n + 1) # kvs else (k, n) # increment kvs word)"

text \<open>Lines 562 to 564, the loop over the words of one title.\<close>

fun count_words :: "pystr \<Rightarrow> pystr list \<Rightarrow> (pystr \<times> int) list \<Rightarrow> (pystr \<times> int) list" where
  "count_words base_lower [] keywords = keywords"
| "count_words base_lower (word # words) keywords =
     (if length word > 3 \<and> word \<noteq> base_lower
      then count_words base_lower words (increment keywords word)
      else count_words base_lower words keywords)"

text \<open>
  \<open>snippet.get('title', '').lower()\<close>. \<open>lower\<close> is Python's \<open>str.lower\<close>, a parameter of the
  model: it is defined by the Unicode case tables.
\<close>

fun lower_of :: "(pystr \<Rightarrow> pystr) \<Rightarrow> json \<Rightarrow> pystr res" where
  "lower_of lower (JStr s) = Inr (lower s)"
| "lower_of lower _ = Inl AttributeError"

definition title_of_item :: "(pystr \<Rightarrow> pystr) \<Rightarrow> json \<Rightarrow> pystr res" where
  "title_of_item lower item =
     bnd (dict_get item (u ''snippet'') (JObj [])) (\<lambda>snippet.
     bnd (dict_get snippet (u ''title'') (JStr [])) (lower_of lower))"

text \<open>Lines 557 to 564, the loop over the items.\<close>

fun count_items :: "(pystr \<Rightarrow> pystr) \<Rightarrow> pystr \<Rightarrow> json list \<Rightarrow> (pystr \<times> int) list \<Rightarrow> (pystr \<times> int) list res" where
  "count_items lower base_keyword [] keywords = Inr keywords"
| "count_items lower base_keyword (item # items) keywords =
     bnd (title_of_item lower item) (\<lambda>title.
     count_items lower base_keyword items
       (count_words (lower base_keyword) (split title) keywords))"

text \<open>
  Line 567: \<open>sorted(keywords.items(), key=lambda x: x[1], reverse=True)[:20]\<close>. Python's
  \<open>sorted\<close> is stable, also with \<open>reverse=True\<close>.
\<close>

definition top_keywords :: "(pystr \<Rightarrow> pystr) \<Rightarrow> pystr \<Rightarrow> json list \<Rightarrow> (pystr \<times> int) list res" where
  "top_keywords lower base_keyword items =
     bnd (count_items lower base_keyword items []) (\<lambda>keywords.
     Inr (take 20 (sort_key (\<lambda>x. - snd x) keywords)))"

section \<open>Concrete inputs and reference definitions\<close>

text \<open>A client that answers every search with one response and every lookup with another.\<close>

definition fixed_client :: "json \<Rightarrow> json \<Rightarrow> client" where
  "fixed_client search_response lookup_response =
     \<lparr> search_list = (\<lambda>q n ord. Inr search_response),
       videos_list = (\<lambda>i. Inr lookup_response),
       channels_list = (\<lambda>i. Inr lookup_response),
       commentThreads_list = (\<lambda>i. Inr (JObj [(u ''items'', JArr [])])),
       playlistItems_list = (\<lambda>i. Inr (JObj [(u ''items'', JArr [])])) \<rparr>"

definition one_hit :: json where
  "one_hit = JObj [(u ''items'', JArr [JObj [(u ''id'', JObj [(u ''videoId'', JStr (u ''v1''))])]])]"

definition no_items_response :: json where
  "no_items_response = JObj [(u ''items'', JArr [])]"

definition snippet_example :: json where
  "snippet_example =
     JObj [(u ''title'', JStr (u ''A video'')),
           (u ''channelId'', JStr (u ''c1'')),
           (u ''channelTitle'', JStr (u ''A channel'')),
           (u ''publishedAt'', JStr (u ''2024-01-01T00:00:00Z'')),
           (u ''description'', JStr (u ''About'')),
           (u ''thumbnails'', JObj [(u ''high'', JObj [(u ''url'', JStr (u ''http://t/1''))])])]"

definition content_details_example :: json where
  "content_details_example =
     JObj [(u ''duration'', JStr (u ''PT1M'')), (u ''definition'', JStr (u ''hd''))]"

text \<open>A video nobody has watched yet: the platform reports \<open>viewCount\<close> as \<open>"0"\<close>.\<close>

definition unwatched_video :: json where
  "unwatched_video =
     JObj [(u ''id'', JStr (u ''v1'')),
           (u ''statistics'',
              JObj [(u ''viewCount'', JStr (u ''0'')), (u ''likeCount'', JStr (u ''5'')),
                    (u ''commentCount'', JStr (u ''1''))]),
           (u ''snippet'', snippet_example),
           (u ''contentDetails'', content_details_example)]"

text \<open>A video record without the \<open>statistics\<close> object.\<close>

definition video_without_statistics :: json where
  "video_without_statistics =
     JObj [(u ''id'', JStr (u ''v1'')),
           (u ''snippet'', snippet_example),
           (u ''contentDetails'', content_details_example)]"

definition items_of :: "json \<Rightarrow> json" where
  "items_of item = JObj [(u ''items'', JArr [item])]"

text \<open>A channel whose uploads are all gone: it has views and no videos.\<close>

definition idle_channel :: channel_data where
  "idle_channel =
     \<lparr> d_name = JStr (u ''Idle''), d_subscribers = 10, d_videos = 0, d_views = 100,
       d_opened = JStr (u ''2020-01-01''), d_description = JStr no_description,
       d_thumbnail = JStr [] \<rparr>"

text \<open>A channel whose average of views is 10.004 percent of its subscribers.\<close>

definition near_ten_channel :: ChannelInfo where
  "near_ten_channel =
     \<lparr> c_channel_id = u ''c1'', c_title = u ''Near ten'', c_description = [],
       c_subscriber_count = 100000, c_video_count = 1, c_view_count = 10004,
       c_published_at = u ''2020-01-01T00:00:00Z'', c_thumbnail_url = [],
       c_average_views = 10004 \<rparr>"

text \<open>The entry of the growth list for one channel, with the tier of the unrounded score.\<close>

definition growth_entry_of :: "ChannelInfo \<Rightarrow> growth_entry" where
  "growth_entry_of c =
     \<lparr> g_channel = c_title c,
       g_engagement_score = py_round (engagement_score_of c) 2,
       g_rating = rating (engagement_score_of c) \<rparr>"

subsection \<open>The keyword extraction of the claim\<close>

text \<open>
  Line 439 of app.py, the only stopword list of the repository: the test that
  \<open>get_keyword_suggestions\<close> applies to a word of a title before it adds the word to a
  set. (The set has no counts, and the order in which the endpoint reads it is not fixed
  by the language; only this test is modelled.)
\<close>

definition stopwords :: "pystr list" where
  "stopwords = [u ''this'', u ''that'', u ''with'', u ''from'']"

definition suggestion_keeps :: "pystr \<Rightarrow> bool" where
  "suggestion_keeps word \<longleftrightarrow> length word > 3 \<and> word \<notin> set stopwords"

text \<open>
  The frequency extraction in the words of the claim, for a list of excluded words and
  the case-folded titles: the tokens longer than 3 characters that are not excluded, each
  with the number of its occurrences, in the order of first occurrence; of these the first
  20 in a stable sort by descending count.
\<close>

definition first_seen :: "'a list \<Rightarrow> 'a list" where
  "first_seen xs = rev (remdups (rev xs))"

definition frequency_table :: "pystr list \<Rightarrow> (pystr \<times> int) list" where
  "frequency_table toks = map (\<lambda>w. (w, int (count_list toks w))) (first_seen toks)"

definition kept_tokens :: "pystr list \<Rightarrow> pystr list \<Rightarrow> pystr list" where
  "kept_tokens excluded titles =
     concat (map (\<lambda>t. filter (\<lambda>w. length w > 3 \<and> w \<notin> set excluded) (split t)) titles)"

definition spec_keyword_frequency :: "pystr list \<Rightarrow> pystr list \<Rightarrow> (pystr \<times> int) list" where
  "spec_keyword_frequency excluded titles =
     take 20 (sort_key (\<lambda>x. - snd x) (frequency_table (kept_tokens excluded titles)))"

text \<open>A stand-in for \<open>str.lower\<close> that is right on ASCII text.\<close>

definition ascii_lower :: "pystr \<Rightarrow> pystr" where
  "ascii_lower s = map (\<lambda>c. if 65 \<le> c \<and> c \<le> 90 then c + 32 else c) s"

definition title_item :: "pystr \<Rightarrow> json" where
  "title_item t = JObj [(u ''snippet'', JObj [(u ''title'', JStr t)])]"

section \<open>Properties\<close>

lemma bnd_Inl: "bnd (Inl e) f = Inl e"
  by (simp add: bnd_def)

lemma bnd_Inr: "bnd (Inr x) f = f x"
  by (simp add: bnd_def)

lemma bnd_eq_Inr: "bnd m f = Inr y \<longleftrightarrow> (\<exists>x. m = Inr x \<and> f x = Inr y)"
  by (cases m) (simp_all add: bnd_def)

lemmas example_defs =
  u_def int_stat_def fixed_client_def one_hit_def no_items_response_def snippet_example_def
  content_details_example_def unwatched_video_def video_without_statistics_def items_of_def

subsection \<open>The uninitialised client\<close>

lemma uninitialized_endpoints_raise_503:
  "analyze_video None video_id = Inl (HTTPException 503 (Text msg_unavailable))"
  "app_analyze_channel None channel_id = Inl (HTTPException 503 (Text msg_unavailable))"
  "compare_channels None channel_ids = Inl (HTTPException 503 (Text msg_unavailable))"
  by (simp_all add: analyze_video_def app_analyze_channel_def compare_channels_def)

lemma uninitialized_dashboard_returns_nothing:
  "streamlit_search_videos None keyword max_results order =
     ([StError (Text st_not_initialized)], [])"
  "streamlit_analyze_channel None channel_id = ([StError (Text st_not_initialized)], None, [])"
  by (simp_all add: streamlit_search_videos_def streamlit_analyze_channel_def)

text \<open>
  Claim C1: every operation invoked while the client is uninitialised fails with an
  unavailability error and returns no data; the video search never returns video records
  then. The code does otherwise: with \<open>youtube\<close> being \<open>None\<close>, \<open>search_videos\<close> of app.py
  returns the one test record of its test mode, for every keyword, count and order. The
  test that raises status 503, which the other endpoints begin with, stands behind that
  return and is never reached.
\<close>

theorem search_videos_uninitialized_returns_test_record:
  "app_search_videos None keyword max_results order = Inr [test_video]"
  by (simp add: app_search_videos_def)

subsection \<open>An identifier that yields no items\<close>

lemma analyze_video_no_items:
  assumes "videos_list yt video_id = Inr response"
    and "subscript response (u ''items'') = Inr items"
    and "\<not> truthy items"
  shows "analyze_video (Some yt) video_id =
     Inl (HTTPException 500 (StrOf (HTTPException 404 (Text msg_video_not_found))))"
  using assms by (simp add: analyze_video_def bnd_def)

lemma analyze_channel_no_items:
  assumes "channels_list yt channel_id = Inr response"
    and "subscript response (u ''items'') = Inr items"
    and "\<not> truthy items"
  shows "app_analyze_channel (Some yt) channel_id =
     Inl (HTTPException 500 (StrOf (HTTPException 404 (Text msg_channel_not_found))))"
  using assms by (simp add: app_analyze_channel_def bnd_def)

text \<open>
  Claim C2: a lookup of a video or a channel whose identifier yields no items reports
  a NotFound error with a status of its own, not a generic status 500. The code raises the
  exception of status 404 inside its \<open>try\<close> block, where the handler for \<open>Exception\<close>
  catches it: what leaves \<open>analyze_video\<close> and \<open>analyze_channel\<close> is status 500, with the
  text of the 404 exception as its detail. Here the platform answers both lookups with an
  empty list of items.
\<close>

theorem not_found_leaves_as_status_500:
  "analyze_video (Some (fixed_client one_hit no_items_response)) (u ''v1'') =
     Inl (HTTPException 500 (StrOf (HTTPException 404 (Text msg_video_not_found)))) \<and>
   app_analyze_channel (Some (fixed_client one_hit no_items_response)) (u ''c1'') =
     Inl (HTTPException 500 (StrOf (HTTPException 404 (Text msg_channel_not_found))))"
  by (simp add: analyze_video_def app_analyze_channel_def bnd_def example_defs)

subsection \<open>Engagement rate\<close>

lemma floor_rat_numeral_div:
  "\<lfloor>(numeral a :: rat) / numeral b\<rfloor> = numeral a div numeral b"
  using floor_divide_of_int_eq [of "numeral a" "numeral b", where ?'a = rat] by simp

lemmas round_eval =
  py_round_def fl_def pow2_def float_mul_def round_half_even_def Let_def
  floor_rat_numeral_div

lemma py_round_zero: "py_round 0 n = 0"
  by (simp add: py_round_def round_half_even_def fl_def)

lemma app_engagement_rate_formula:
  "app_engagement_rate view_count like_count comment_count =
     Inr (if view_count > 0
          then py_round
                 (float_mul (fl (of_int (like_count + comment_count) / of_int view_count)) 100) 2
          else 0)"
  by (simp add: app_engagement_rate_def float_truediv_def bnd_def py_round_zero)

lemma streamlit_engagement_rate_formula:
  "streamlit_engagement_rate view_count like_count comment_count =
     Inr (if view_count > 0
          then py_round
                 (float_mul (fl (of_int (like_count + comment_count) / of_int view_count)) 100) 2
          else 0)"
  by (simp add: streamlit_engagement_rate_def float_truediv_def bnd_def py_round_zero)

lemma video_engagement_rate_zero_views:
  assumes "int_stat stats (u ''likeCount'') 0 = Inr like_count"
    and "int_stat stats (u ''commentCount'') 0 = Inr comment_count"
    and "int_stat stats (u ''viewCount'') 1 = Inr 0"
  shows "video_engagement_rate stats = Inl ZeroDivisionError"
  using assms by (simp add: video_engagement_rate_def float_truediv_def bnd_def)

text \<open>
  Claim C3: the derived engagement rate is
  \<open>round(((likeCount + commentCount) / viewCount) * 100, 2)\<close> when \<open>viewCount > 0\<close> and 0
  when \<open>viewCount = 0\<close>, in the search normalisation and in the analysis of one video.
  Both search normalisations do so (\<open>app_engagement_rate_formula\<close>,
  \<open>streamlit_engagement_rate_formula\<close>). \<open>analyze_video\<close> does not test the divisor: its
  default of 1 covers only a missing \<open>viewCount\<close>. For a video whose \<open>viewCount\<close> is
  \<open>"0"\<close> the division raises and the request ends with status 500 instead of a rate
  of 0.
\<close>

theorem analyze_video_unwatched_raises:
  "analyze_video (Some (fixed_client one_hit (items_of unwatched_video))) (u ''v1'') =
     Inl (HTTPException 500 (StrOf ZeroDivisionError))"
  by (simp add: analyze_video_def bnd_def example_defs top_comments_def
      video_engagement_rate_def float_truediv_def int_of_str_def int_strip_def
      ascii_space_def is_digit_def)

subsection \<open>Average views\<close>

lemma max_video_count:
  assumes "int_stat stats k 1 = Inr a" and "int_stat stats k 0 = Inr b"
  shows "max a 1 = max b 1"
  using assms by (cases stats) (auto simp add: int_stat_def bnd_def split: option.splits)

text \<open>
  In a row of the comparison the divisor is taken with default 1 and the shown number of
  videos with default 0; under \<open>max(_, 1)\<close> the two agree.
\<close>

lemma comparison_row_avg:
  assumes "comparison_row_of item = Inr row"
  shows "cr_avg_views row = of_int (cr_views row) / of_int (max (cr_videos row) 1)"
proof -
  from assms obtain stats n videos views where
    n: "int_stat stats (u ''videoCount'') 1 = Inr n" and
    videos: "int_stat stats (u ''videoCount'') 0 = Inr videos" and
    avg: "comparison_avg_views views n = Inr (cr_avg_views row)" and
    row: "cr_views row = views" "cr_videos row = videos"
    by (auto simp add: comparison_row_of_def bnd_eq_Inr)
  from avg have "cr_avg_views row = of_int views / of_int (max n 1)"
    by (simp add: comparison_avg_views_def truediv_def max_def split: if_splits)
  with max_video_count [OF n videos] row show ?thesis by simp
qed

text \<open>
  Claim C4, as stated: the derived average of views is \<open>viewCount / videoCount\<close> when
  \<open>videoCount > 0\<close> and 0 when \<open>videoCount = 0\<close>, in every surface. It fails twice. The
  channel analysis of app.py rounds the quotient to an integer: 10 views over 4 videos
  give 2, not 2.5. The two surfaces of the dashboard divide by \<open>max(videoCount, 1)\<close>: a
  channel with 100 views and no video gets 100, not 0.
\<close>

theorem average_views_counterexample:
  "app_average_views 10 4 = Inr 2 \<and> (2 :: rat) \<noteq> 10 / 4 \<and>
   channel_branch_avg_views idle_channel = Inr 100 \<and>
   comparison_avg_views 100 0 = Inr 100"
  by (simp add: app_average_views_def channel_branch_avg_views_def comparison_avg_views_def
      idle_channel_def truediv_def bnd_def round_eval)

text \<open>
  Claim C4, amended: no surface raises on a division by zero. The channel analysis of
  app.py yields \<open>round(viewCount / videoCount, 0)\<close> when \<open>videoCount > 0\<close> and 0 otherwise;
  the channel analysis and the competitor comparison of the dashboard yield
  \<open>viewCount / max(videoCount, 1)\<close>.
\<close>

theorem average_views_by_surface:
  "app_average_views views videos =
     Inr (if videos > 0 then py_round (of_int views / of_int videos) 0 else 0) \<and>
   channel_branch_avg_views cd = Inr (of_int (d_views cd) / of_int (max (d_videos cd) 1)) \<and>
   comparison_avg_views views n = Inr (of_int views / of_int (max n 1))"
  by (simp add: app_average_views_def channel_branch_avg_views_def comparison_avg_views_def
      truediv_def bnd_def py_round_zero max_def)

subsection \<open>A record without statistics\<close>

lemma video_info_without_statistics:
  assumes "map_of kvs (u ''statistics'') = None"
  shows "video_info_of_item (JObj kvs) = Inl (KeyError (JStr (u ''statistics'')))"
  using assms by (simp add: video_info_of_item_def bnd_def)

lemma video_row_without_statistics:
  assumes "map_of kvs (u ''statistics'') = None"
    and "video_row_of_item (JObj kvs) = Inr row"
  shows "r_view_count row = 0 \<and> r_like_count row = 0 \<and> r_comment_count row = 0 \<and>
         r_engagement_rate row = 0"
  using assms
  by (auto simp add: video_row_of_item_def bnd_eq_Inr int_stat_def
      streamlit_engagement_rate_formula)

lemma dashboard_search_without_statistics:
  "streamlit_search_videos (Some (fixed_client one_hit (items_of video_without_statistics)))
     (u ''k'') 10 (u ''relevance'') =
   ([], [\<lparr> r_title = JStr (u ''A video''), r_channel = JStr (u ''A channel''),
           r_published = JStr (u ''2024-01-01''), r_view_count = 0, r_like_count = 0,
           r_comment_count = 0, r_engagement_rate = 0, r_video_id = JStr (u ''v1''),
           r_thumbnail = JStr [] \<rparr>])"
  by (simp add: streamlit_search_videos_def video_row_of_item_def bnd_def example_defs
      no_items_def streamlit_engagement_rate_def streamlit_thumbnail_def date_of_def
      title_unknown_def channel_unknown_def py_round_zero)

text \<open>
  Claim C5: a raw video record without the \<open>statistics\<close> object is normalised without
  an exception, with all three counts and the engagement rate 0. The dashboard does so
  (\<open>video_row_without_statistics\<close>, \<open>dashboard_search_without_statistics\<close>): it reads
  \<open>item.get('statistics', {})\<close>. \<open>search_videos\<close> of app.py reads \<open>item['statistics']\<close>: the
  missing key raises \<open>KeyError\<close> and the whole search ends with status 500.
\<close>

theorem search_videos_without_statistics_raises:
  "app_search_videos (Some (fixed_client one_hit (items_of video_without_statistics)))
     (u ''k'') 10 (u ''relevance'') =
   Inl (HTTPException 500 (StrOf (KeyError (JStr (u ''statistics'')))))"
  by (simp add: app_search_videos_def video_info_of_item_def bnd_def example_defs)

subsection \<open>Description\<close>

text \<open>
  Claim C6, as stated: the description is the first 200 characters and an ellipsis when
  the raw description is not empty, and an explicit placeholder when it is empty or
  absent. For an empty description the channel analysis of app.py yields the empty
  string, by its own \<open>else ""\<close>, and not a placeholder.
\<close>

theorem description_counterexample:
  "app_channel_description (JObj [(u ''description'', JStr [])]) = Inr (JStr []) \<and>
   no_description \<noteq> []"
  by (simp add: app_channel_description_def bnd_def no_description_def)

text \<open>
  Claim C6, amended: when the raw description is a string that is not empty, the
  description is its first 200 characters followed by \<open>...\<close> in the search of app.py and
  in both channel analyses. When it is empty, the channel analysis of app.py yields the
  empty string and the one of the dashboard its placeholder; the dashboard yields the
  placeholder also when the description is absent.
\<close>

theorem description_by_surface:
  "(map_of kvs (u ''description'') = Some (JStr d) \<and> d \<noteq> [] \<longrightarrow>
      app_search_description (JObj kvs) = Inr (JStr (take 200 d @ u ''...'')) \<and>
      app_channel_description (JObj kvs) = Inr (JStr (take 200 d @ u ''...'')) \<and>
      streamlit_description (JObj kvs) = Inr (JStr (take 200 d @ u ''...''))) \<and>
   (map_of kvs (u ''description'') = Some (JStr []) \<longrightarrow>
      app_channel_description (JObj kvs) = Inr (JStr []) \<and>
      streamlit_description (JObj kvs) = Inr (JStr no_description)) \<and>
   (map_of kvs (u ''description'') = None \<longrightarrow>
      streamlit_description (JObj kvs) = Inr (JStr no_description))"
  by (simp add: app_search_description_def app_channel_description_def
      streamlit_description_def bnd_def)

theorem description_by_surface_witness:
  "(map_of [(u ''description'', JStr (u ''About''))] (u ''description'') =
      Some (JStr (u ''About'')) \<and> u ''About'' \<noteq> [] \<and>
    app_search_description (JObj [(u ''description'', JStr (u ''About''))]) =
      Inr (JStr (u ''About...'')) \<and>
    app_channel_description (JObj [(u ''description'', JStr (u ''About''))]) =
      Inr (JStr (u ''About...'')) \<and>
    streamlit_description (JObj [(u ''description'', JStr (u ''About''))]) =
      Inr (JStr (u ''About...''))) \<and>
   (map_of [(u ''description'', JStr [])] (u ''description'') = Some (JStr []) \<and>
    app_channel_description (JObj [(u ''description'', JStr [])]) = Inr (JStr []) \<and>
    streamlit_description (JObj [(u ''description'', JStr [])]) =
      Inr (JStr no_description)) \<and>
   (map_of [(u ''title'', JStr (u ''T''))] (u ''description'') = None \<and>
    streamlit_description (JObj [(u ''title'', JStr (u ''T''))]) = Inr (JStr no_description))"
  using description_by_surface [of "[(u ''description'', JStr (u ''About''))]" "u ''About''"]
    description_by_surface [of "[(u ''description'', JStr [])]" "[]"]
    description_by_surface [of "[(u ''title'', JStr (u ''T''))]" "[]"]
  by (simp add: u_def)

subsection \<open>Thumbnail\<close>

text \<open>
  Claim C7, as stated: the extraction returns the URL at the preferred resolution when
  present, otherwise that of the next best resolution available, otherwise the empty
  string. No surface looks at a second resolution: a record that has only the \<open>default\<close>
  thumbnail gets the empty string from the dashboard's search, which asks for \<open>medium\<close>.
\<close>

theorem thumbnail_counterexample:
  "streamlit_thumbnail (u ''medium'')
     (JObj [(u ''thumbnails'',
             JObj [(u ''default'', JObj [(u ''url'', JStr (u ''http://t/d''))])])]) =
   Inr (JStr [])"
  by (simp add: streamlit_thumbnail_def bnd_def u_def)

text \<open>
  Claim C7, amended: in the dashboard the extraction returns the URL at the one
  resolution key it asks for when the \<open>thumbnails\<close> object has it, and the empty string
  when the \<open>thumbnails\<close> object or that key is missing, without raising and without
  looking at another resolution.
\<close>

theorem thumbnail_by_key:
  "(map_of kvs (u ''thumbnails'') = None \<longrightarrow>
      streamlit_thumbnail key (JObj kvs) = Inr (JStr [])) \<and>
   (map_of kvs (u ''thumbnails'') = Some (JObj ts) \<and> map_of ts key = None \<longrightarrow>
      streamlit_thumbnail key (JObj kvs) = Inr (JStr [])) \<and>
   (map_of kvs (u ''thumbnails'') = Some (JObj ts) \<and> map_of ts key = Some (JObj e) \<and>
    map_of e (u ''url'') = Some url \<longrightarrow>
      streamlit_thumbnail key (JObj kvs) = Inr url)"
  by (simp add: streamlit_thumbnail_def bnd_def)

theorem thumbnail_by_key_witness:
  "(map_of [(u ''title'', JStr (u ''T''))] (u ''thumbnails'') = None \<and>
    streamlit_thumbnail (u ''high'') (JObj [(u ''title'', JStr (u ''T''))]) = Inr (JStr [])) \<and>
   (map_of [(u ''thumbnails'', JObj [(u ''default'', JObj [])])] (u ''thumbnails'') =
      Some (JObj [(u ''default'', JObj [])]) \<and>
    map_of [(u ''default'', JObj [])] (u ''high'') = None \<and>
    streamlit_thumbnail (u ''high'') (JObj [(u ''thumbnails'', JObj [(u ''default'', JObj [])])]) =
      Inr (JStr [])) \<and>
   (map_of [(u ''thumbnails'', JObj [(u ''high'', JObj [(u ''url'', JStr (u ''http://t/1''))])])]
      (u ''thumbnails'') = Some (JObj [(u ''high'', JObj [(u ''url'', JStr (u ''http://t/1''))])]) \<and>
    map_of [(u ''high'', JObj [(u ''url'', JStr (u ''http://t/1''))])] (u ''high'') =
      Some (JObj [(u ''url'', JStr (u ''http://t/1''))]) \<and>
    map_of [(u ''url'', JStr (u ''http://t/1''))] (u ''url'') = Some (JStr (u ''http://t/1'')) \<and>
    streamlit_thumbnail (u ''high'')
      (JObj [(u ''thumbnails'', JObj [(u ''high'', JObj [(u ''url'', JStr (u ''http://t/1''))])])]) =
      Inr (JStr (u ''http://t/1'')))"
  using thumbnail_by_key [of "[(u ''title'', JStr (u ''T''))]" "u ''high''" "[]" "[]" "JNull"]
    thumbnail_by_key [of "[(u ''thumbnails'', JObj [(u ''default'', JObj [])])]"
      "u ''high''" "[(u ''default'', JObj [])]" "[]" "JNull"]
    thumbnail_by_key [of
      "[(u ''thumbnails'', JObj [(u ''high'', JObj [(u ''url'', JStr (u ''http://t/1''))])])]"
      "u ''high''" "[(u ''high'', JObj [(u ''url'', JStr (u ''http://t/1''))])]"
      "[(u ''url'', JStr (u ''http://t/1''))]" "JStr (u ''http://t/1'')"]
  by (simp add: u_def)

subsection \<open>Growth potential\<close>

lemma growth_potential_acc:
  "growth_potential df acc =
     acc @ map growth_entry_of (filter (\<lambda>c. c_subscriber_count c > 0) df)"
  by (induction df arbitrary: acc) (simp_all add: growth_entry_of_def Let_def)

text \<open>
  The arithmetic is that of the floats: for an average of 23 views and 160 subscribers the
  score is the float below 14.375 and its rounding the float of 14.37; the exact quotient
  would round to 14.38.
\<close>

lemma growth_score_of_floats:
  "py_round (float_mul (fl (23 / fl 160)) 100) 2 = fl (1437 / 100)"
  by (simp add: round_eval)

text \<open>
  Claim C9, as stated: each entry has the score rounded to two decimals and the tier
  \<open>High\<close> if the score is above 10, \<open>Medium\<close> if above 5, else \<open>Low\<close>. The code decides the
  tier before it rounds. A channel with 100000 subscribers and an average of 10004 views
  has a score just above 10.004: its entry shows the score 10 with the tier \<open>High\<close>, while
  a score of 10 is not above 10.
\<close>

theorem growth_potential_counterexample:
  "growth_potential [near_ten_channel] [] =
     [\<lparr> g_channel = u ''Near ten'', g_engagement_score = 10, g_rating = u ''High'' \<rparr>] \<and>
   rating 10 = u ''Medium''"
  by (simp add: near_ten_channel_def engagement_score_of_def rating_def round_eval u_def)

text \<open>
  Claim C9, amended: the growth list holds, in input order, exactly the channels with
  \<open>subscriberCount > 0\<close>, each with its title, with the score
  \<open>(averageViews / subscriberCount) * 100\<close> of float arithmetic rounded to two decimals,
  and with the tier of that score before rounding: \<open>High\<close> above 10, \<open>Medium\<close> above 5,
  else \<open>Low\<close>. No channel with \<open>subscriberCount = 0\<close> has an entry.
\<close>

theorem growth_potential_entries:
  "growth_potential df [] =
     map (\<lambda>c. let score =
                  float_mul (fl (c_average_views c / fl (of_int (c_subscriber_count c)))) 100
              in \<lparr> g_channel = c_title c,
                   g_engagement_score = py_round score 2,
                   g_rating =
                     (if score > 10 then u ''High''
                      else if score > 5 then u ''Medium'' else u ''Low'') \<rparr>)
       (filter (\<lambda>c. c_subscriber_count c > 0) df)"
  by (simp add: growth_potential_acc growth_entry_of_def engagement_score_of_def rating_def
      Let_def)

subsection \<open>Keyword frequency\<close>

lemma first_seen_snoc:
  "first_seen (xs @ [w]) = (if w \<in> set xs then first_seen xs else first_seen xs @ [w])"
  by (simp add: first_seen_def)

lemma set_first_seen: "set (first_seen xs) = set xs"
  by (simp add: first_seen_def)

lemma distinct_first_seen: "distinct (first_seen xs)"
  by (simp add: first_seen_def)

lemma frequency_table_Nil: "frequency_table [] = []"
  by (simp add: frequency_table_def first_seen_def)

text \<open>The sort of the table is by descending count and keeps the order of equal counts.\<close>

lemma frequency_sort_descending:
  fixes tbl :: "(pystr \<times> int) list"
  shows "sorted_wrt (\<lambda>x y. snd y \<le> snd x) (sort_key (\<lambda>x. - snd x) tbl)"
proof -
  have "sorted (map (\<lambda>x. - snd x) (sort_key (\<lambda>x. - snd x) tbl))"
    by (rule sorted_sort_key)
  then show ?thesis by (simp add: sorted_map)
qed

lemma frequency_sort_stable:
  fixes tbl :: "(pystr \<times> int) list"
  shows "filter (\<lambda>x. snd x = n) (sort_key (\<lambda>x. - snd x) tbl) =
     filter (\<lambda>x. snd x = n) tbl"
  using sort_key_stable [of "\<lambda>x. - snd x" "- n" tbl] by simp

text \<open>One step of the dict is one more occurrence in the table.\<close>

lemma increment_map:
  assumes "distinct ks"
  shows "increment (map (\<lambda>x. (x, c x)) ks) w =
     (if w \<in> set ks then map (\<lambda>x. (x, if x = w then c x + 1 else c x)) ks
      else map (\<lambda>x. (x, c x)) ks @ [(w, 1)])"
  using assms by (induction ks) auto

lemma increment_frequency_table:
  "increment (frequency_table toks) w = frequency_table (toks @ [w])"
  by (auto simp add: frequency_table_def increment_map distinct_first_seen set_first_seen
      first_seen_snoc)

lemma count_words_frequency_table:
  "count_words b ws (frequency_table toks) =
     frequency_table (toks @ filter (\<lambda>w. length w > 3 \<and> w \<notin> set [b]) ws)"
proof (induction ws arbitrary: toks)
  case Nil
  then show ?case by simp
next
  case (Cons w ws)
  show ?case
  proof (cases "length w > 3 \<and> w \<noteq> b")
    case True
    then show ?thesis
      using Cons.IH [of "toks @ [w]"] by (simp add: increment_frequency_table)
  next
    case False
    then show ?thesis
      using Cons.IH [of toks] by auto
  qed
qed

lemma count_items_frequency_table:
  assumes "collect (title_of_item lower) items = Inr titles"
  shows "count_items lower base items (frequency_table toks) =
     Inr (frequency_table (toks @ kept_tokens [lower base] titles))"
  using assms
proof (induction items arbitrary: titles toks)
  case Nil
  then show ?case by (simp add: kept_tokens_def)
next
  case (Cons item items)
  from Cons.prems obtain t ts where
    t: "title_of_item lower item = Inr t" and
    ts: "collect (title_of_item lower) items = Inr ts" and
    titles: "titles = t # ts"
    by (auto simp add: bnd_eq_Inr)
  show ?case
    using Cons.IH [OF ts] t titles
    by (simp add: bnd_Inr count_words_frequency_table kept_tokens_def)
qed

lemmas keyword_eval =
  top_keywords_def title_of_item_def title_item_def bnd_def split_def ascii_lower_def
  py_isspace_def u_def spec_keyword_frequency_def kept_tokens_def frequency_table_def
  first_seen_def

text \<open>
  Claim C10, as stated: the frequency extraction keeps the tokens longer than 3
  characters that are not in a small stopword set, counts them and returns the 20 most
  frequent. The only stopword list of the repository, \<open>this\<close>, \<open>that\<close>, \<open>with\<close>, \<open>from\<close>,
  belongs to the suggestion endpoint of app.py, which does not count. The extraction that
  counts, in the dashboard, excludes one word, the base keyword: for the base keyword
  \<open>python\<close> the title \<open>Cook with this\<close> gives \<open>with\<close> and \<open>this\<close> a count, where the
  extraction with the stopword list leaves only \<open>cook\<close>.
\<close>

theorem keyword_frequency_counterexample:
  "top_keywords ascii_lower (u ''python'') [title_item (u ''Cook with this'')] =
     Inr [(u ''cook'', 1), (u ''with'', 1), (u ''this'', 1)] \<and>
   spec_keyword_frequency stopwords [ascii_lower (u ''Cook with this'')] = [(u ''cook'', 1)]"
  by (simp add: keyword_eval stopwords_def)

text \<open>
  Claim C10, amended: for every batch of search results whose titles can be read, the
  keyword analysis of the dashboard splits each case-folded title at whitespace, keeps
  the tokens longer than 3 characters that differ from the case-folded base keyword,
  counts the occurrences of each token, and returns the first 20 tokens by descending
  count, equal counts in the order of first occurrence.
\<close>

theorem top_keywords_frequency:
  assumes "collect (title_of_item lower) items = Inr titles"
  shows "top_keywords lower base_keyword items =
     Inr (spec_keyword_frequency [lower base_keyword] titles)"
  using count_items_frequency_table [OF assms, of base_keyword "[]"]
  by (simp add: top_keywords_def spec_keyword_frequency_def frequency_table_Nil bnd_Inr)

theorem top_keywords_frequency_witness:
  "collect (title_of_item ascii_lower)
     [title_item (u ''Learn Python fast''), title_item (u ''Fast cars learn'')] =
     Inr [u ''learn python fast'', u ''fast cars learn''] \<and>
   top_keywords ascii_lower (u ''Python'')
     [title_item (u ''Learn Python fast''), title_item (u ''Fast cars learn'')] =
     Inr [(u ''learn'', 2), (u ''fast'', 2), (u ''cars'', 1)]"
  using top_keywords_frequency [of ascii_lower
      "[title_item (u ''Learn Python fast''), title_item (u ''Fast cars learn'')]"
      "[u ''learn python fast'', u ''fast cars learn'']" "u ''Python''"]
  by (simp add: keyword_eval)

end
